theory Spec2Isabelle
  imports Main
begin

section \<open>JavaScript values held by the i18n resource files\<close>

text \<open>
  The translation service of \<^verbatim>\<open>src/lib/translate.ts\<close> reads JSON resource files with
  \<^verbatim>\<open>require\<close>, compares them with \<^verbatim>\<open>diffObjects\<close> (\<^verbatim>\<open>src/util\<close>) and walks the difference
  with \<^verbatim>\<open>getTranslations\<close>. A value is a JSON value, or \<^verbatim>\<open>undefined\<close>, which is what
  \<^verbatim>\<open>base[key]\<close> yields for a key the object does not have. An object is the list of its
  own properties in the order \<^verbatim>\<open>Object.keys\<close> lists them, which is the order of insertion
  for keys that are not array indices; a well-formed object has pairwise distinct keys.
  \<open>Builtin name\<close> is the member \<open>name\<close> that every object inherits from
  \<^verbatim>\<open>Object.prototype\<close> (a function, or the prototype itself for \<^verbatim>\<open>__proto__\<close>); it is never
  part of a JSON file, but \<^verbatim>\<open>base[key]\<close> yields it when \<open>key\<close> is such a name and the object
  has no property of its own under it.
  Left out of the model: JSON arrays and keys that are array indices (neither occurs in
  the resource trees), and numbers that are not integers. The length of a string is the
  length of its character list.
\<close>

datatype jsval =
    Undefined
  | Null
  | Bool bool
  | Number int
  | String string
  | Object "(string \<times> jsval) list"
  | Builtin string

type_synonym props = "(string \<times> jsval) list"

text \<open>\<^verbatim>\<open>obj[key]\<close> on own properties, \<^verbatim>\<open>key in obj\<close>, and the assignment \<^verbatim>\<open>obj[key] = v\<close>,
  which overwrites the value of a key already there and appends a new key at the end.\<close>

fun get_prop :: "props \<Rightarrow> string \<Rightarrow> jsval" where
  "get_prop [] key = Undefined"
| "get_prop ((k, v) # rest) key = (if k = key then v else get_prop rest key)"

fun has_prop :: "props \<Rightarrow> string \<Rightarrow> bool" where
  "has_prop [] key = False"
| "has_prop ((k, v) # rest) key = (k = key \<or> has_prop rest key)"

fun set_prop :: "props \<Rightarrow> string \<Rightarrow> jsval \<Rightarrow> props" where
  "set_prop [] key v = [(key, v)]"
| "set_prop ((k, w) # rest) key v =
     (if k = key then (k, v) # rest else (k, w) # set_prop rest key v)"

text \<open>The object spread \<^verbatim>\<open>{ ...a, ...b }\<close>: the properties of \<^verbatim>\<open>a\<close>, then those of \<^verbatim>\<open>b\<close>,
  assigned one after the other into a fresh object.\<close>

definition spread :: "props \<Rightarrow> props \<Rightarrow> props" where
  "spread a b = fold (\<lambda>e acc. set_prop acc (fst e) (snd e)) (a @ b) []"

text \<open>
  \<^verbatim>\<open>base[key]\<close> as JavaScript evaluates it on an object read from a JSON file: the
  property of the object itself if it has one, else the member inherited from
  \<^verbatim>\<open>Object.prototype\<close> if \<open>key\<close> names one, else \<^verbatim>\<open>undefined\<close>. The plain assignment
  \<^verbatim>\<open>result[key] = v\<close> on a fresh object creates or overwrites a property of the object,
  except under the key \<^verbatim>\<open>__proto__\<close>, where it runs the inherited setter and creates no
  property. (An object literal with a computed key and the object spread define
  properties directly, so \<open>set_prop\<close> is right for them under every key.)
\<close>

definition prototype_members :: "string list" where
  "prototype_members =
     [''constructor'', ''toString'', ''toLocaleString'', ''valueOf'', ''hasOwnProperty'',
      ''isPrototypeOf'', ''propertyIsEnumerable'', ''__proto__'', ''__defineGetter__'',
      ''__defineSetter__'', ''__lookupGetter__'', ''__lookupSetter__'']"

definition lookup :: "props \<Rightarrow> string \<Rightarrow> jsval" where
  "lookup obj key =
     (if has_prop obj key then get_prop obj key
      else if key \<in> set prototype_members then Builtin key
      else Undefined)"

definition assign :: "props \<Rightarrow> string \<Rightarrow> jsval \<Rightarrow> props" where
  "assign obj key v = (if key = ''__proto__'' then obj else set_prop obj key v)"

text \<open>JavaScript truthiness (\<^verbatim>\<open>!base[key]\<close>) and lodash's \<^verbatim>\<open>isObject\<close>, which holds of
  objects and of functions.\<close>

fun truthy :: "jsval \<Rightarrow> bool" where
  "truthy Undefined = False"
| "truthy Null = False"
| "truthy (Bool b) = b"
| "truthy (Number n) = (n \<noteq> 0)"
| "truthy (String s) = (s \<noteq> [])"
| "truthy (Object ps) = True"
| "truthy (Builtin name) = True"

fun isObject :: "jsval \<Rightarrow> bool" where
  "isObject (Object ps) = True"
| "isObject Undefined = False"
| "isObject Null = False"
| "isObject (Bool b) = False"
| "isObject (Number n) = False"
| "isObject (String s) = False"
| "isObject (Builtin name) = True"

fun props_of :: "jsval \<Rightarrow> props" where
  "props_of (Object ps) = ps"
| "props_of Undefined = []"
| "props_of Null = []"
| "props_of (Bool b) = []"
| "props_of (Number n) = []"
| "props_of (String s) = []"
| "props_of (Builtin name) = []"

text \<open>lodash's \<^verbatim>\<open>isEqual\<close>: primitives are equal when they are the same value; two objects
  are equal when they have the same number of own keys, every key of the first is a key of
  the second, and the values under it are equal in turn (the order of keys is irrelevant).\<close>

fun isEqual :: "jsval \<Rightarrow> jsval \<Rightarrow> bool" where
  "isEqual (Object xs) (Object ys) =
     (length xs = length ys \<and>
      (\<forall>e \<in> set xs. has_prop ys (fst e) \<and> isEqual (snd e) (get_prop ys (fst e))))"
| "isEqual (Object xs) Undefined = False"
| "isEqual (Object xs) Null = False"
| "isEqual (Object xs) (Bool b) = False"
| "isEqual (Object xs) (Number n) = False"
| "isEqual (Object xs) (String s) = False"
| "isEqual (Object xs) (Builtin name) = False"
| "isEqual Undefined b = (b = Undefined)"
| "isEqual Null b = (b = Null)"
| "isEqual (Bool a) b = (b = Bool a)"
| "isEqual (Number a) b = (b = Number a)"
| "isEqual (String a) b = (b = String a)"
| "isEqual (Builtin a) b = (b = Builtin a)"

text \<open>A well-formed value: the keys of every object in it are pairwise distinct.\<close>

fun wf_val :: "jsval \<Rightarrow> bool" where
  "wf_val (Object ps) = (distinct (map fst ps) \<and> (\<forall>e \<in> set ps. wf_val (snd e)))"
| "wf_val Undefined = True"
| "wf_val Null = True"
| "wf_val (Bool b) = True"
| "wf_val (Number n) = True"
| "wf_val (String s) = True"
| "wf_val (Builtin name) = True"

section \<open>The gap detector: \<^verbatim>\<open>diffObjects\<close>\<close>

text \<open>
  \<^verbatim>\<open>
  export function diffObjects(base: {}, obj: {}): {} {
    return transform(obj, (result, value, key) => {
      if (!isEqual(value, base[key])) {
        if (!base[key]) {
          result[key] = isObject(value) && isObject(base[key]) ? diffObjects(value, base[key]) : value;
        }
      }
    });
  }
  \<close>
  lodash's \<^verbatim>\<open>transform\<close> visits the own properties of \<^verbatim>\<open>obj\<close> in order with an empty
  object as accumulator (the callback never returns \<^verbatim>\<open>false\<close>, so no property is skipped).
  The recursive call passes the value of \<^verbatim>\<open>obj\<close> as the new base and the value of
  \<^verbatim>\<open>base\<close> as the new object, as the source does.
\<close>

function diffObjects :: "props \<Rightarrow> props \<Rightarrow> props" where
  "diffObjects base obj =
     fold (\<lambda>e result.
             if \<not> isEqual (snd e) (lookup base (fst e)) then
               (if \<not> truthy (lookup base (fst e)) then
                  assign result (fst e)
                    (if isObject (snd e) \<and> isObject (lookup base (fst e))
                     then Object (diffObjects (props_of (snd e)) (props_of (lookup base (fst e))))
                     else snd e)
                else result)
             else result)
       obj []"
  by pat_completeness auto
termination
proof (relation "measure (\<lambda>(b, ob). size (Object b) + size (Object ob))")
  show "wf (measure (\<lambda>(b, ob). size (Object b) + size (Object ob)))"
    by simp
next
  fix base obj :: props and e :: "string \<times> jsval"
  assume mem: "e \<in> set obj"
  have unwrap: "size (Object (props_of v)) \<le> size v + 1" for v
    by (cases v) auto
  have own: "size (Object (props_of (get_prop b k))) \<le> size (Object b)" for b k
  proof (induction b k rule: get_prop.induct)
    case (1 key)
    then show ?case by simp
  next
    case (2 k v rest key)
    then show ?case using unwrap [of v] by auto
  qed
  have member: "x \<in> set ob \<Longrightarrow> size (snd x) + 1 < size (Object ob)"
    for x :: "string \<times> jsval" and ob
    by (induction ob) auto
  have "size (Object (props_of (snd e))) < size (Object obj)"
    using member [OF mem] unwrap [of "snd e"] by simp
  moreover have "size (Object (props_of (lookup base (fst e)))) \<le> size (Object base)"
    using own [of base "fst e"] by (simp add: lookup_def)
  ultimately show "((props_of (snd e), props_of (lookup base (fst e))), base, obj)
      \<in> measure (\<lambda>(b, ob). size (Object b) + size (Object ob))"
    by simp
qed

declare diffObjects.simps [simp del]

section \<open>The translation service\<close>

text \<open>The configuration of \<^verbatim>\<open>TranslateService\<close>, with the fields of the source. A field of
  two records cannot share a name, so the path of a reference is \<open>ref_path\<close>.\<close>

record TranslateReference =
  ref_path :: string
  inject :: "string option"

record TranslateServiceConfig =
  languages :: "string list option"
  maxLength :: int
  projectId :: string
  reference :: "TranslateReference list"
  retranslate :: bool
  root :: string

record FileDetails =
  lang :: string
  path :: string

text \<open>What a JavaScript call can throw or a promise can reject with: a \<^verbatim>\<open>TypeError\<close> (reading
  a property of \<^verbatim>\<open>null\<close> or \<^verbatim>\<open>undefined\<close>), a failed \<^verbatim>\<open>require\<close>, the message a helper of
  \<^verbatim>\<open>src/util\<close> rejects with, and a failure of the translation provider.\<close>

datatype error =
    TypeError
  | ModuleNotFound string
  | Rejected string
  | ProviderError string

text \<open>The provider \<^verbatim>\<open>googleTranslate.translate(text, lang)\<close> is a parameter: a function that
  returns the translation or fails. Every call made is recorded, in order, as the pair of
  its arguments.\<close>

type_synonym provider = "string \<Rightarrow> string \<Rightarrow> error + string"

type_synonym call = "string \<times> string"

record TranslationResult =
  results :: props
  translated :: bool

definition MISSING_TRANSLATION :: string where
  "MISSING_TRANSLATION = ''***MISSING TRANSLATION***''"

text \<open>
  The string branch of the loop body of \<^verbatim>\<open>getTranslations\<close> (lines 247 to 261); \<open>results\<close>
  is the constant \<^verbatim>\<open>results = {}\<close> of the function, which no statement ever assigns to.
  \<^verbatim>\<open>
  if (item.length > this.config.maxLength) {
    return { results: { ...results, [key]: MISSING_TRANSLATION }, translated: this.config.retranslate };
  } else {
    const [translation] = await this.googleTranslate.translate(item, lang);
    return { results: { ...results, [key]: translation }, translated: true };
  }
  \<close>
\<close>

definition translateLeaf ::
  "TranslateServiceConfig \<Rightarrow> provider \<Rightarrow> string \<Rightarrow> string \<Rightarrow> string
     \<Rightarrow> call list \<times> (error + TranslationResult option)" where
  "translateLeaf cfg translate key item lng =
     (if int (length item) > maxLength cfg then
        ([], Inr (Some \<lparr>results = spread [] [(key, String MISSING_TRANSLATION)],
                        translated = retranslate cfg\<rparr>))
      else
        (case translate item lng of
           Inl e \<Rightarrow> ([(item, lng)], Inl e)
         | Inr translation \<Rightarrow>
             ([(item, lng)],
              Inr (Some \<lparr>results = spread [] [(key, String translation)],
                          translated = True\<rparr>))))"

text \<open>
  \<^verbatim>\<open>
  private async getTranslations(obj: any, lang: string) {
    const results = {};
    for (const key of Object.keys(obj)) {
      const item = obj[key];
      if (typeof item === 'string') { ... return ... }
      else {
        const val = await this.getTranslations(item, lang);
        return { results: { ...results, [key]: val.translated }, translated: val.translated };
      }
    }
    // Will never get here
    return null;
  }
  \<close>
  Every path through the loop body ends in \<^verbatim>\<open>return\<close>, so the loop visits the first key
  only and the statement after the loop runs exactly when \<^verbatim>\<open>Object.keys(obj)\<close> is empty.
  The result \<open>Inr None\<close> is the returned \<^verbatim>\<open>null\<close>. \<^verbatim>\<open>Object.keys\<close> throws on \<^verbatim>\<open>null\<close> and
  \<^verbatim>\<open>undefined\<close>, is empty on a boolean, a number or an inherited member, and lists the
  indices of a string;
  \<^verbatim>\<open>val.translated\<close> throws when the recursive call returned \<^verbatim>\<open>null\<close>. The line written with
  \<^verbatim>\<open>log.info\<close> before each call of the provider is not modelled; the call itself is recorded.
\<close>

fun getTranslations ::
  "TranslateServiceConfig \<Rightarrow> provider \<Rightarrow> jsval \<Rightarrow> string
     \<Rightarrow> call list \<times> (error + TranslationResult option)" where
  "getTranslations cfg translate Undefined lng = ([], Inl TypeError)"
| "getTranslations cfg translate Null lng = ([], Inl TypeError)"
| "getTranslations cfg translate (Bool b) lng = ([], Inr None)"
| "getTranslations cfg translate (Number n) lng = ([], Inr None)"
| "getTranslations cfg translate (Builtin name) lng = ([], Inr None)"
| "getTranslations cfg translate (String []) lng = ([], Inr None)"
| "getTranslations cfg translate (String (c # cs)) lng =
     translateLeaf cfg translate ''0'' [c] lng"
| "getTranslations cfg translate (Object []) lng = ([], Inr None)"
| "getTranslations cfg translate (Object ((key, String item) # rest)) lng =
     translateLeaf cfg translate key item lng"
| "getTranslations cfg translate (Object ((key, item) # rest)) lng =
     (case getTranslations cfg translate item lng of
        (cs, Inl e) \<Rightarrow> (cs, Inl e)
      | (cs, Inr None) \<Rightarrow> (cs, Inl TypeError)
      | (cs, Inr (Some val)) \<Rightarrow>
          (cs, Inr (Some \<lparr>results = spread [] [(key, Bool (translated val))],
                          translated = translated val\<rparr>)))"

section \<open>Paths, the file system and the helpers of \<^verbatim>\<open>src/util\<close>\<close>

text \<open>Node's POSIX \<^verbatim>\<open>path.dirname\<close> and \<^verbatim>\<open>path.basename\<close>: trailing slashes are ignored,
  \<^verbatim>\<open>dirname\<close> is everything before the last separator of what remains (\<^verbatim>\<open>.\<close> when there
  is none, \<^verbatim>\<open>/\<close> for an entry of the root) and \<^verbatim>\<open>basename\<close> is the last component.
  \<^verbatim>\<open>s.replace('.json', '')\<close> removes the first occurrence of \<^verbatim>\<open>.json\<close> in \<^verbatim>\<open>s\<close>.\<close>

definition dirname :: "string \<Rightarrow> string" where
  "dirname p =
     (case p of
        [] \<Rightarrow> ''.''
      | c # body \<Rightarrow>
          (case dropWhile (\<lambda>x. x \<noteq> CHR ''/'') (dropWhile (\<lambda>x. x = CHR ''/'') (rev body)) of
             [] \<Rightarrow> (if c = CHR ''/'' then ''/'' else ''.'')
           | s # front \<Rightarrow>
               (if c = CHR ''/'' \<and> front = [] then ''//'' else c # rev front)))"

definition basename :: "string \<Rightarrow> string" where
  "basename p =
     rev (takeWhile (\<lambda>x. x \<noteq> CHR ''/'') (dropWhile (\<lambda>x. x = CHR ''/'') (rev p)))"

fun replace_first :: "string \<Rightarrow> string \<Rightarrow> string \<Rightarrow> string" where
  "replace_first pat rep [] = (if pat = [] then rep else [])"
| "replace_first pat rep (c # cs) =
     (if take (length pat) (c # cs) = pat then rep @ drop (length pat) (c # cs)
      else c # replace_first pat rep cs)"

text \<open>
  The world the service acts on. \<open>files\<close> maps the path of a JSON file to the object it
  holds (what \<^verbatim>\<open>require\<close> returns; \<^verbatim>\<open>writeFile\<close> stores the object whose
  \<^verbatim>\<open>JSON.stringify\<close> text it is given, \<^verbatim>\<open>'{}'\<close> being the empty object); \<open>dirs\<close> is the set
  of directories; \<open>listing\<close> is what \<^verbatim>\<open>fs.readdir\<close> answers for a path; \<open>unwritable\<close> holds
  the paths on which \<^verbatim>\<open>fs.mkdir\<close> and \<^verbatim>\<open>fs.writeFile\<close> report an error; \<open>errlog\<close> is what
  \<^verbatim>\<open>log.error\<close> received and \<open>calls\<close> the calls made to the provider. Which of several
  failing tasks fails first in time is not decided by the program but by how long the
  provider and the disk take: \<open>first_rejection\<close> is that timing, a choice among the errors
  of the tasks of one \<^verbatim>\<open>Promise.all\<close>, and what is proved below holds for every such choice.
\<close>

record world =
  files :: "string \<rightharpoonup> props"
  dirs :: "string set"
  listing :: "string \<rightharpoonup> string list"
  unwritable :: "string set"
  first_rejection :: "error list \<Rightarrow> nat"
  errlog :: "error list"
  calls :: "call list"

definition existsSync :: "world \<Rightarrow> string \<Rightarrow> bool" where
  "existsSync w p = (files w p \<noteq> None \<or> p \<in> dirs w)"

definition isDirectory :: "world \<Rightarrow> string \<Rightarrow> bool" where
  "isDirectory w p = (p \<in> dirs w)"

definition require :: "world \<Rightarrow> string \<Rightarrow> error + props" where
  "require w p = (case files w p of None \<Rightarrow> Inl (ModuleNotFound p) | Some content \<Rightarrow> Inr content)"

definition createDir :: "string \<Rightarrow> world \<Rightarrow> error option \<times> world" where
  "createDir p w =
     (if p \<in> unwritable w then (Some (Rejected (''Failed to create directory '' @ p)), w)
      else (None, w\<lparr>dirs := insert p (dirs w)\<rparr>))"

definition dirFiles :: "world \<Rightarrow> string \<Rightarrow> error + string list" where
  "dirFiles w p =
     (case listing w p of
        None \<Rightarrow> Inl (Rejected (''Failed to acquire file listing in '' @ p))
      | Some names \<Rightarrow> Inr names)"

definition writeFile :: "string \<Rightarrow> props \<Rightarrow> world \<Rightarrow> error option \<times> world" where
  "writeFile p content w =
     (if p \<in> unwritable w then (Some (Rejected (''Failed to save '' @ p)), w)
      else (None, w\<lparr>files := (files w)(p \<mapsto> content)\<rparr>))"

text \<open>
  \<^verbatim>\<open>Promise.all\<close> over tasks that change the world: every task runs to its end (a
  rejection cancels nothing), which is \<open>settleAll\<close>, and the result is rejected with the
  rejection that comes first in time, one of the errors of the failing tasks, chosen by
  \<open>first_rejection\<close>. The effects of the tasks are applied in list order; the source lets
  the tasks interleave at their \<^verbatim>\<open>await\<close>s, after each has made its synchronous checks and
  reads, which is why the operations below read from a snapshot taken before the tasks
  start. \<open>allResults\<close> is \<^verbatim>\<open>Promise.all\<close> over reads.
\<close>

fun settleAll ::
  "('a \<Rightarrow> world \<Rightarrow> error option \<times> world) \<Rightarrow> 'a list \<Rightarrow> world \<Rightarrow> error list \<times> world" where
  "settleAll task [] w = ([], w)"
| "settleAll task (x # xs) w =
     (case task x w of
        (e, w') \<Rightarrow>
          (case settleAll task xs w' of
             (es, w'') \<Rightarrow> ((case e of None \<Rightarrow> es | Some err \<Rightarrow> err # es), w'')))"

definition promiseAll ::
  "('a \<Rightarrow> world \<Rightarrow> error option \<times> world) \<Rightarrow> 'a list \<Rightarrow> world \<Rightarrow> error option \<times> world" where
  "promiseAll task xs w =
     (case settleAll task xs w of
        (es, w') \<Rightarrow>
          ((if es = [] then None else Some (es ! (first_rejection w es mod length es))), w'))"

fun allResults :: "(error + 'a) list \<Rightarrow> error + 'a list" where
  "allResults [] = Inr []"
| "allResults (r # rs) =
     (case r of
        Inl e \<Rightarrow> Inl e
      | Inr v \<Rightarrow> (case allResults rs of Inl e \<Rightarrow> Inl e | Inr vs \<Rightarrow> Inr (v # vs)))"

section \<open>Resolving a reference\<close>

text \<open>
  \<^verbatim>\<open>
  const directories = await dirFiles(path.dirname(reference.path));
  const files = await Promise.all(directories.map(x => dirFiles(x)));
  const result = directories.map((pathh, index) =>
      files[index].map(file => ({ lang: path.dirname(pathh), path: file }))).flat();
  return { result, referenceLanguage: path.basename(reference.path) };
  \<close>
\<close>

definition getDirectoryFiles ::
  "world \<Rightarrow> TranslateReference \<Rightarrow> error + (FileDetails list \<times> string)" where
  "getDirectoryFiles w ref =
     (case dirFiles w (dirname (ref_path ref)) of
        Inl e \<Rightarrow> Inl e
      | Inr directories \<Rightarrow>
          (case allResults (map (\<lambda>x. dirFiles w x) directories) of
             Inl e \<Rightarrow> Inl e
           | Inr listed \<Rightarrow>
               Inr (concat (map (\<lambda>(pathh, names).
                                   map (\<lambda>file. \<lparr>lang = dirname pathh, path = file\<rparr>) names)
                                (zip directories listed)),
                    basename (ref_path ref))))"

text \<open>
  \<^verbatim>\<open>
  const referenceLanguage = path.basename(reference.path).replace('.json', '');
  const files = await dirFiles(path.dirname(reference.path));
  const result = files.map(x => ({ lang: path.basename(x).replace('.json', ''), path: x }));
  return { result, referenceLanguage };
  \<close>
\<close>

definition getJSONFiles ::
  "world \<Rightarrow> TranslateReference \<Rightarrow> error + (FileDetails list \<times> string)" where
  "getJSONFiles w ref =
     (case dirFiles w (dirname (ref_path ref)) of
        Inl e \<Rightarrow> Inl e
      | Inr names \<Rightarrow>
          Inr (map (\<lambda>x. \<lparr>lang = replace_first ''.json'' [] (basename x), path = x\<rparr>) names,
               replace_first ''.json'' [] (basename (ref_path ref))))"

section \<open>Creating what is missing\<close>

text \<open>
  Both helpers map over \<^verbatim>\<open>this.config.languages\<close>, the optional field of the configuration,
  not over the languages \<^verbatim>\<open>runReference\<close> computed: with the field absent,
  \<^verbatim>\<open>undefined.map\<close> throws a \<^verbatim>\<open>TypeError\<close> before anything is created. The existence
  checks are synchronous, so they see the world as it was when the helper was called.
  \<^verbatim>\<open>
  this.config.languages.map(language => {
    const folder = path.dirname(reference.path) + '/' + language;
    return !fs.existsSync(folder) ? createDir(folder) : null;
  })
  this.config.languages.map(language => {
    const fileToCheck = isDir
      ? path.dirname(reference.path) + '/' + language + '/' + path.basename(baseFile.path)
      : path.dirname(reference.path) + '/' + language + '.json';
    return !fs.existsSync(fileToCheck) ? writeFile(fileToCheck, '{}') : null;
  })
  \<close>
\<close>

definition createEmptyFolders ::
  "TranslateServiceConfig \<Rightarrow> TranslateReference \<Rightarrow> world \<Rightarrow> error option \<times> world" where
  "createEmptyFolders cfg ref w =
     (case languages cfg of
        None \<Rightarrow> (Some TypeError, w)
      | Some ls \<Rightarrow>
          promiseAll createDir
            (filter (\<lambda>folder. \<not> existsSync w folder)
               (map (\<lambda>language. dirname (ref_path ref) @ ''/'' @ language) ls))
            w)"

definition createEmptyFiles ::
  "TranslateServiceConfig \<Rightarrow> TranslateReference \<Rightarrow> FileDetails \<Rightarrow> bool \<Rightarrow> world
     \<Rightarrow> world \<Rightarrow> error option \<times> world" where
  "createEmptyFiles cfg ref baseFile isDir snapshot w =
     (case languages cfg of
        None \<Rightarrow> (Some TypeError, w)
      | Some ls \<Rightarrow>
          promiseAll (\<lambda>fileToCheck. writeFile fileToCheck [])
            (filter (\<lambda>fileToCheck. \<not> existsSync snapshot fileToCheck)
               (map (\<lambda>language.
                       if isDir
                       then dirname (ref_path ref) @ ''/'' @ language @ ''/'' @ basename (path baseFile)
                       else dirname (ref_path ref) @ ''/'' @ language @ ''.json'')
                  ls))
            w)"

section \<open>The driver\<close>

text \<open>
  One target language of one base file, the body of the inner \<^verbatim>\<open>Promise.all\<close>:
  \<^verbatim>\<open>
  const original = require(pathh);
  const updates = await this.getTranslations(diffObjects(base, original), lang);
  await writeFile(pathh, JSON.stringify({ ...updates.results, ...original }));
  \<close>
  \<^verbatim>\<open>require\<close> and \<^verbatim>\<open>diffObjects\<close> run before the first \<^verbatim>\<open>await\<close>, on the snapshot;
  \<^verbatim>\<open>updates.results\<close> throws a \<^verbatim>\<open>TypeError\<close> when \<^verbatim>\<open>getTranslations\<close> returned \<^verbatim>\<open>null\<close>.
\<close>

definition translateOne ::
  "TranslateServiceConfig \<Rightarrow> provider \<Rightarrow> props \<Rightarrow> world \<Rightarrow> FileDetails \<Rightarrow> world
     \<Rightarrow> error option \<times> world" where
  "translateOne cfg translate base snapshot translation w =
     (case require snapshot (path translation) of
        Inl e \<Rightarrow> (Some e, w)
      | Inr original \<Rightarrow>
          (case getTranslations cfg translate (Object (diffObjects base original)) (lang translation) of
             (cs, Inl e) \<Rightarrow> (Some e, w\<lparr>calls := calls w @ cs\<rparr>)
           | (cs, Inr None) \<Rightarrow> (Some TypeError, w\<lparr>calls := calls w @ cs\<rparr>)
           | (cs, Inr (Some updates)) \<Rightarrow>
               writeFile (path translation) (spread (results updates) original)
                 (w\<lparr>calls := calls w @ cs\<rparr>)))"

text \<open>
  \<^verbatim>\<open>
  try {
    const base: {} = require(baseFile.path);
    const translations = languages.map(x => ({ lang: x, output: {}, path: isDir
        ? path.dirname(path.dirname(baseFile.path)) + '/' + x + '/' + path.basename(baseFile.path)
        : path.dirname(baseFile.path) + '/' + x + '.json' }));
    await Promise.all(translations.map(async translation => { ... }));
  } catch (e) {
    log.error('Failed to acquire missing translations', e);
  }
  \<close>
  The function never rejects: whatever is thrown inside is logged. The field \<^verbatim>\<open>output\<close>
  is never read and is left out.
\<close>

definition targetPath :: "FileDetails \<Rightarrow> bool \<Rightarrow> string \<Rightarrow> string" where
  "targetPath baseFile isDir x =
     (if isDir
      then dirname (dirname (path baseFile)) @ ''/'' @ x @ ''/'' @ basename (path baseFile)
      else dirname (path baseFile) @ ''/'' @ x @ ''.json'')"

definition acquireMissingTranslations ::
  "TranslateServiceConfig \<Rightarrow> provider \<Rightarrow> FileDetails \<Rightarrow> string list \<Rightarrow> bool \<Rightarrow> world
     \<Rightarrow> world \<Rightarrow> world" where
  "acquireMissingTranslations cfg translate baseFile langs isDir snapshot w =
     (case require snapshot (path baseFile) of
        Inl e \<Rightarrow> w\<lparr>errlog := errlog w @ [e]\<rparr>
      | Inr base \<Rightarrow>
          (case promiseAll (translateOne cfg translate base snapshot)
                  (map (\<lambda>x. \<lparr>lang = x, path = targetPath baseFile isDir x\<rparr>) langs) w of
             (None, w') \<Rightarrow> w'
           | (Some e, w') \<Rightarrow> w'\<lparr>errlog := errlog w' @ [e]\<rparr>))"

text \<open>
  \<^verbatim>\<open>
  const isDir = fs.existsSync(reference.path) && fs.lstatSync(reference.path).isDirectory();
  const files = isDir ? await this.getDirectoryFiles(reference) : await this.getJSONFiles(reference);
  const baseFiles = files.result.filter(x => x.lang === files.referenceLanguage);
  const languages = this.config.languages ? this.config.languages
                                          : [...new Set(files.result.map(x => x.lang))];
  if (isDir) { await this.createEmptyFolders(reference); }
  await Promise.all(baseFiles.map(x => this.createEmptyFiles(reference, x, isDir)));
  await Promise.all(baseFiles.map(x => this.acquireMissingTranslations(x, languages, isDir)));
  \<close>
  An array is truthy even when empty, so the configured languages are taken whenever the
  field is there. \<open>uniq\<close> is \<^verbatim>\<open>[...new Set(xs)]\<close>: the first occurrence of every element,
  in order. The result is the error the returned promise rejects with, if any, and the
  world left behind.
\<close>

definition uniq :: "'a list \<Rightarrow> 'a list" where
  "uniq xs = rev (remdups (rev xs))"

definition effectiveLanguages :: "TranslateServiceConfig \<Rightarrow> FileDetails list \<Rightarrow> string list" where
  "effectiveLanguages cfg result =
     (case languages cfg of Some ls \<Rightarrow> ls | None \<Rightarrow> uniq (map lang result))"

definition runReference ::
  "TranslateServiceConfig \<Rightarrow> provider \<Rightarrow> TranslateReference \<Rightarrow> world \<Rightarrow> error option \<times> world" where
  "runReference cfg translate ref w =
     (let isDir = existsSync w (ref_path ref) \<and> isDirectory w (ref_path ref) in
      case (if isDir then getDirectoryFiles w ref else getJSONFiles w ref) of
        Inl e \<Rightarrow> (Some e, w)
      | Inr (result, referenceLanguage) \<Rightarrow>
          (let baseFiles = filter (\<lambda>x. lang x = referenceLanguage) result;
               langs = effectiveLanguages cfg result
           in case (if isDir then createEmptyFolders cfg ref w else (None, w)) of
                (Some e, w1) \<Rightarrow> (Some e, w1)
              | (None, w1) \<Rightarrow>
                  (case promiseAll (\<lambda>x. createEmptyFiles cfg ref x isDir w1) baseFiles w1 of
                     (Some e, w2) \<Rightarrow> (Some e, w2)
                   | (None, w2) \<Rightarrow>
                       (None,
                        fold (\<lambda>x. acquireMissingTranslations cfg translate x langs isDir w2)
                          baseFiles w2))))"

text \<open>
  \<^verbatim>\<open>
  public async run(): Promise<void> {
    await Promise.all(this.config.reference.map(x => this.runReference(x)));
  }
  \<close>
  The references are taken in list order.
\<close>

definition run :: "TranslateServiceConfig \<Rightarrow> provider \<Rightarrow> world \<Rightarrow> error option \<times> world" where
  "run cfg translate w = promiseAll (runReference cfg translate) (reference cfg) w"

text \<open>What the resolution of a reference and the creation of targets depend on: which
  files and directories exist, the listings, which paths cannot be written, and the
  timing; not what the files hold, the log or the calls made.\<close>

definition shape ::
  "world \<Rightarrow> string set \<times> string set \<times> (string \<rightharpoonup> string list) \<times> string set \<times> (error list \<Rightarrow> nat)" where
  "shape w = (dom (files w), dirs w, listing w, unwritable w, first_rejection w)"

section \<open>Concrete configurations and worlds\<close>

text \<open>The configuration and the provider of the scenarios: \<^verbatim>\<open>maxLength = 100\<close>, one target
  language, and a provider that knows two French and one German word and fails on
  anything else. \<open>example_world\<close> builds a world from the JSON files and the directory
  listings it is to hold, under the directory \<^verbatim>\<open>/i18n\<close>; in it the first task of a list
  to fail is the first to fail in time.\<close>

definition example_config :: TranslateServiceConfig where
  "example_config =
     \<lparr>languages = Some [''fr''], maxLength = 100, projectId = ''example'',
      reference = [\<lparr>ref_path = ''/i18n/en.json'', inject = None\<rparr>],
      retranslate = False, root = ''/i18n''\<rparr>"

definition example_provider :: provider where
  "example_provider text lng =
     (if lng = ''fr'' \<and> text = ''Hello'' then Inr ''Bonjour''
      else if lng = ''fr'' \<and> text = ''World'' then Inr ''Monde''
      else if lng = ''de'' \<and> text = ''Hello'' then Inr ''Hallo''
      else Inl (ProviderError ''unavailable''))"

definition example_world :: "(string \<times> props) list \<Rightarrow> (string \<times> string list) list \<Rightarrow> world" where
  "example_world fs ls =
     \<lparr>files = map_of fs, dirs = {''/i18n''}, listing = map_of ls,
      unwritable = {}, first_rejection = (\<lambda>es. 0), errlog = [], calls = []\<rparr>"

section \<open>Facts about objects, assignment and spread\<close>

lemma get_set_prop: "get_prop (set_prop r k x) k' = (if k' = k then x else get_prop r k')"
  by (induction r k x rule: set_prop.induct) auto

lemma has_set_prop: "has_prop (set_prop r k x) k' = (k' = k \<or> has_prop r k')"
  by (induction r k x rule: set_prop.induct) auto

lemma has_prop_iff: "has_prop r k = (k \<in> fst ` set r)"
  by (induction r k rule: has_prop.induct) auto

lemma get_prop_absent: "\<not> has_prop r k \<Longrightarrow> get_prop r k = Undefined"
  by (induction r k rule: get_prop.induct) auto

lemma get_prop_mem: "distinct (map fst r) \<Longrightarrow> (k, v) \<in> set r \<Longrightarrow> get_prop r k = v"
  by (induction r k rule: get_prop.induct) (auto simp: rev_image_eqI)

lemma get_prop_in: "has_prop r k \<Longrightarrow> (k, get_prop r k) \<in> set r"
  by (induction r k rule: get_prop.induct) auto

lemma set_prop_keys: "fst ` set (set_prop r k x) = insert k (fst ` set r)"
  by (induction r k x rule: set_prop.induct) auto

lemma set_prop_distinct: "distinct (map fst r) \<Longrightarrow> distinct (map fst (set_prop r k x))"
  by (induction r k x rule: set_prop.induct) (auto simp: set_prop_keys)




lemma fold_assign_none:
  "\<forall>e \<in> set xs. \<not> c e \<Longrightarrow>
   fold (\<lambda>e result. if c e then set_prop result (fst e) (h e) else result) xs acc = acc"
  by (induction xs arbitrary: acc) auto

lemma fold_assign_keys:
  "has_prop (fold (\<lambda>e result. if c e then set_prop result (fst e) (h e) else result) xs acc) k
     \<Longrightarrow> has_prop xs k \<or> has_prop acc k"
proof (induction xs arbitrary: acc)
  case Nil
  then show ?case by simp
next
  case (Cons x xs)
  obtain k0 v0 where x: "x = (k0, v0)" by (cases x)
  from Cons.IH [OF Cons.prems [unfolded fold_simps]]
  show ?case unfolding x by (auto simp: has_set_prop split: if_splits)
qed

lemma has_fold_set:
  "has_prop (fold (\<lambda>e r. set_prop r (fst e) (snd e)) xs acc) k = (has_prop xs k \<or> has_prop acc k)"
proof (induction xs arbitrary: acc)
  case Nil
  then show ?case by simp
next
  case (Cons x xs)
  obtain k0 v0 where x: "x = (k0, v0)" by (cases x)
  show ?case unfolding x by (simp add: Cons.IH has_set_prop) blast
qed

lemma get_fold_set:
  "distinct (map fst xs) \<Longrightarrow>
   get_prop (fold (\<lambda>e r. set_prop r (fst e) (snd e)) xs acc) k
     = (if has_prop xs k then get_prop xs k else get_prop acc k)"
proof (induction xs arbitrary: acc)
  case Nil
  then show ?case by simp
next
  case (Cons x xs)
  obtain k0 v0 where x: "x = (k0, v0)" by (cases x)
  have d: "distinct (map fst xs)" and n: "\<not> has_prop xs k0"
    using Cons.prems by (auto simp: x has_prop_iff)
  show ?case using Cons.IH [OF d] n by (auto simp: x get_set_prop)
qed

lemma distinct_fold_set:
  "distinct (map fst acc) \<Longrightarrow> distinct (map fst (fold (\<lambda>e r. set_prop r (fst e) (snd e)) xs acc))"
  by (induction xs arbitrary: acc) (auto simp: set_prop_distinct)

lemma spread_single: "spread [] [(k, v)] = [(k, v)]"
  by (simp add: spread_def)

lemma spread_has: "has_prop (spread a b) k = (has_prop a k \<or> has_prop b k)"
  by (auto simp: spread_def has_fold_set)

lemma spread_get:
  "distinct (map fst a) \<Longrightarrow> distinct (map fst b) \<Longrightarrow>
   get_prop (spread a b) k = (if has_prop b k then get_prop b k else get_prop a k)"
  by (simp add: spread_def get_fold_set get_prop_absent)

lemma spread_get_right:
  "distinct (map fst b) \<Longrightarrow> has_prop b k \<Longrightarrow> get_prop (spread a b) k = get_prop b k"
  by (simp add: spread_def get_fold_set)

lemma spread_distinct: "distinct (map fst (spread a b))"
  by (simp add: spread_def distinct_fold_set)

lemma isEqual_refl: "wf_val v \<Longrightarrow> isEqual v v"
proof (induction v)
  case (Object ps)
  have "has_prop ps (fst e) \<and> isEqual (snd e) (get_prop ps (fst e))" if e: "e \<in> set ps" for e
  proof -
    have "get_prop ps (fst e) = snd e"
      using get_prop_mem [of ps "fst e" "snd e"] Object.prems e by simp
    moreover have "isEqual (snd e) (snd e)"
      using Object.IH [of e "snd e"] Object.prems e by (cases e) auto
    ultimately show ?thesis using e by (auto simp: has_prop_iff)
  qed
  then show ?case by simp
qed simp_all

lemma same_keys_length:
  assumes "distinct (map fst xs)" "distinct (map fst ys)" "fst ` set xs = fst ` set ys"
  shows "length xs = length ys"
proof -
  have "length xs = card (set (map fst xs))" using assms(1) distinct_card [of "map fst xs"] by simp
  also have "\<dots> = card (set (map fst ys))" using assms(3) by simp
  also have "\<dots> = length ys" using assms(2) distinct_card [of "map fst ys"] by simp
  finally show ?thesis .
qed

lemma spread_covered_isEqual:
  assumes wf: "wf_val (Object original)"
    and cov: "\<forall>k. has_prop leaves k \<longrightarrow> has_prop original k"
  shows "isEqual (Object (spread leaves original)) (Object original)"
proof -
  have d: "distinct (map fst original)" using wf by simp
  have keys: "fst ` set (spread leaves original) = fst ` set original"
  proof -
    have "has_prop (spread leaves original) k = has_prop original k" for k
      using cov by (auto simp: spread_has)
    then have "(k \<in> fst ` set (spread leaves original)) = (k \<in> fst ` set original)" for k
      by (simp add: has_prop_iff)
    then show ?thesis by blast
  qed
  have len: "length (spread leaves original) = length original"
    using same_keys_length [OF spread_distinct d keys] .
  have "has_prop original (fst e) \<and> isEqual (snd e) (get_prop original (fst e))"
    if e: "e \<in> set (spread leaves original)" for e
  proof -
    have h: "has_prop original (fst e)" using e keys by (auto simp: has_prop_iff)
    have "get_prop (spread leaves original) (fst e) = snd e"
      using get_prop_mem [OF spread_distinct, of "fst e" "snd e"] e by simp
    then have eq: "get_prop original (fst e) = snd e"
      using spread_get_right [OF d h] by simp
    have "(fst e, get_prop original (fst e)) \<in> set original" using get_prop_in [OF h] .
    then have "wf_val (snd e)" using wf eq by auto
    then show ?thesis using h eq isEqual_refl by simp
  qed
  then show ?thesis using len by simp
qed

section \<open>What the gap detector returns\<close>

lemma lookup_own: "has_prop obj key \<Longrightarrow> lookup obj key = get_prop obj key"
  by (simp add: lookup_def)

lemma diffObjects_fold:
  "diffObjects base obj =
     fold (\<lambda>e result.
             if \<not> isEqual (snd e) (lookup base (fst e)) \<and> \<not> truthy (lookup base (fst e)) \<and>
                fst e \<noteq> ''__proto__''
             then set_prop result (fst e)
                    (if isObject (snd e) \<and> isObject (lookup base (fst e))
                     then Object (diffObjects (props_of (snd e)) (props_of (lookup base (fst e))))
                     else snd e)
             else result)
       obj []"
proof -
  have "(\<lambda>e result.
             if \<not> isEqual (snd e) (lookup base (fst e)) then
               (if \<not> truthy (lookup base (fst e)) then
                  assign result (fst e)
                    (if isObject (snd e) \<and> isObject (lookup base (fst e))
                     then Object (diffObjects (props_of (snd e)) (props_of (lookup base (fst e))))
                     else snd e)
                else result)
             else result)
      = (\<lambda>e result.
             if \<not> isEqual (snd e) (lookup base (fst e)) \<and> \<not> truthy (lookup base (fst e)) \<and>
                fst e \<noteq> ''__proto__''
             then set_prop result (fst e)
                    (if isObject (snd e) \<and> isObject (lookup base (fst e))
                     then Object (diffObjects (props_of (snd e)) (props_of (lookup base (fst e))))
                     else snd e)
             else result)"
    by (intro ext) (simp add: assign_def)
  then show ?thesis by (subst diffObjects.simps) simp
qed

lemma diffObjects_equal: "isEqual (Object original) (Object base) \<Longrightarrow> diffObjects base original = []"
  by (subst diffObjects_fold, rule fold_assign_none) (simp add: lookup_def)

lemma diffObjects_empty_target: "diffObjects base [] = []"
  by (subst diffObjects.simps) simp

lemma diffObjects_keys: "has_prop (diffObjects base obj) k \<Longrightarrow> has_prop obj k"
  using fold_assign_keys [of _ _ obj "[]" k] by (subst (asm) diffObjects_fold) fastforce

text \<open>A key of the target that names a member of \<^verbatim>\<open>Object.prototype\<close> and is no property of
  the base is dropped: the inherited member is truthy.\<close>

lemma inherited_member_is_dropped:
  "diffObjects [] [(''constructor'', String ''x''), (''Title'', String ''Hello'')]
     = [(''Title'', String ''Hello'')]"
  by (simp add: diffObjects.simps lookup_def assign_def prototype_members_def)




section \<open>What the recursive leaf translation returns\<close>





lemma getTranslations_nested:
  assumes "\<forall>s. item \<noteq> String s"
  shows "getTranslations cfg translate (Object ((key, item) # rest)) lng =
     (case getTranslations cfg translate item lng of
        (cs, Inl e) \<Rightarrow> (cs, Inl e)
      | (cs, Inr None) \<Rightarrow> (cs, Inl TypeError)
      | (cs, Inr (Some val)) \<Rightarrow>
          (cs, Inr (Some \<lparr>results = [(key, Bool (translated val))],
                          translated = translated val\<rparr>)))"
  using assms by (cases item) (simp_all add: spread_single)

lemma getTranslations_results_keys:
  assumes "getTranslations cfg translate (Object node) lng = (cs, Inr (Some r))"
    and "has_prop (results r) k"
  shows "has_prop node k"
proof (cases node)
  case Nil
  then show ?thesis using assms(1) by simp
next
  case (Cons first rest)
  obtain k0 item0 where first: "first = (k0, item0)" by (cases first)
  have "results r = [(k0, get_prop (results r) k0)]"
  proof (cases "\<exists>s. item0 = String s")
    case True
    then show ?thesis using assms(1) unfolding Cons first
      by (auto simp: translateLeaf_def spread_single split: if_splits sum.splits)
  next
    case False
    then have "\<forall>s. item0 \<noteq> String s" by blast
    from getTranslations_nested [OF this, of cfg translate k0 rest lng] assms(1)
    show ?thesis unfolding Cons first
      by (auto split: prod.splits sum.splits option.splits)
  qed
  then have "k = k0" using assms(2) by (metis has_prop.simps(1,2))
  then show ?thesis unfolding Cons first by simp
qed

text \<open>
  C2. Every key of a node given to \<^verbatim>\<open>getTranslations\<close> is to be processed, so that the
  results hold an entry for every key. The code returns from inside the first iteration
  of its loop: whatever follows the first key of a node does not change the outcome, and
  of \<^verbatim>\<open>{"Title": "Hello", "Body": "World"}\<close> only \<^verbatim>\<open>Title\<close> is translated; the results
  hold no entry for \<^verbatim>\<open>Body\<close> and the provider is never asked for it.
\<close>

theorem later_keys_are_never_visited:
  "getTranslations cfg translate (Object ((key, item) # rest)) lng
     = getTranslations cfg translate (Object [(key, item)]) lng \<and>
   getTranslations example_config example_provider
       (Object [(''Title'', String ''Hello''), (''Body'', String ''World'')]) ''fr''
     = ([(''Hello'', ''fr'')],
        Inr (Some \<lparr>results = [(''Title'', String ''Bonjour'')], translated = True\<rparr>))"
  by (cases item)
     (simp_all add: translateLeaf_def spread_single example_config_def example_provider_def)







section \<open>Failures, merging and the empty gap in the driver\<close>



lemma translateOne_ok:
  "require snapshot (path t) = Inr original \<Longrightarrow>
   getTranslations cfg translate (Object (diffObjects base original)) (lang t)
     = (cs, Inr (Some updates)) \<Longrightarrow>
   path t \<notin> unwritable w \<Longrightarrow>
   translateOne cfg translate base snapshot t w =
     (None, w\<lparr>calls := calls w @ cs,
              files := (files w)(path t \<mapsto> spread (results updates) original)\<rparr>)"
  by (simp add: translateOne_def writeFile_def)































text \<open>
  C8. The content written back for a target file is the spread of the translated leaves
  followed by the original content. In it the value of the original wins under every key
  the original has, and a key the original lacks keeps the translated value. When the
  original already has every key of the translated leaves, the merged object is
  deep-equal to the original and holds the same value under every key. (The written
  text can list the keys in another order than the original did: the keys of the
  leaves come first.)
\<close>

theorem merge_keeps_original:
  assumes "distinct (map fst leaves)" and "wf_val (Object original)"
  shows "(\<forall>k. has_prop (spread leaves original) k = (has_prop leaves k \<or> has_prop original k)) \<and>
         (\<forall>k. get_prop (spread leaves original) k =
                (if has_prop original k then get_prop original k else get_prop leaves k)) \<and>
         ((\<forall>k. has_prop leaves k \<longrightarrow> has_prop original k) \<longrightarrow>
            isEqual (Object (spread leaves original)) (Object original) \<and>
            (\<forall>k. get_prop (spread leaves original) k = get_prop original k)) \<and>
         (\<forall>cfg translate base snapshot t w cs updates.
            require snapshot (path t) = Inr original \<and>
            getTranslations cfg translate (Object (diffObjects base original)) (lang t)
              = (cs, Inr (Some updates)) \<and>
            path t \<notin> unwritable w \<longrightarrow>
            files (snd (translateOne cfg translate base snapshot t w)) (path t)
              = Some (spread (results updates) original))"
proof -
  have d: "distinct (map fst original)" using assms(2) by simp
  have get: "get_prop (spread leaves original) k =
                (if has_prop original k then get_prop original k else get_prop leaves k)" for k
    using spread_get [OF assms(1) d] .
  have covered: "isEqual (Object (spread leaves original)) (Object original) \<and>
            (\<forall>k. get_prop (spread leaves original) k = get_prop original k)"
    if cov: "\<forall>k. has_prop leaves k \<longrightarrow> has_prop original k"
  proof -
    have "get_prop (spread leaves original) k = get_prop original k" for k
      using get [of k] cov get_prop_absent [of leaves k] get_prop_absent [of original k]
      by (cases "has_prop original k") auto
    then show ?thesis using spread_covered_isEqual [OF assms(2) cov] by simp
  qed
  have written: "files (snd (translateOne cfg translate base snapshot t w)) (path t)
              = Some (spread (results updates) original)"
    if "require snapshot (path t) = Inr original"
      "getTranslations cfg translate (Object (diffObjects base original)) (lang t)
              = (cs, Inr (Some updates))"
      "path t \<notin> unwritable w"
    for cfg translate base snapshot t w cs updates
    using translateOne_ok [OF that] by simp
  show ?thesis using spread_has get covered written by blast
qed

theorem merge_keeps_original_witness:
  "get_prop (spread [(''Title'', String ''Bonjour'')]
               [(''Body'', String ''Monde''), (''Title'', String ''Salut'')]) ''Title''
     = String ''Salut'' \<and>
   isEqual (Object (spread [(''Title'', String ''Bonjour'')]
                      [(''Body'', String ''Monde''), (''Title'', String ''Salut'')]))
           (Object [(''Body'', String ''Monde''), (''Title'', String ''Salut'')]) \<and>
   files (snd (translateOne example_config example_provider []
                 (example_world [(''/i18n/en.json'', []),
                                 (''/i18n/fr.json'', [(''Title'', String ''Hello'')])] [])
                 \<lparr>lang = ''fr'', path = ''/i18n/fr.json''\<rparr>
                 (example_world [(''/i18n/en.json'', []),
                                 (''/i18n/fr.json'', [(''Title'', String ''Hello'')])] [])))
         ''/i18n/fr.json''
     = Some [(''Title'', String ''Hello'')]"
proof -
  have shape: "distinct (map fst [(''Title'', String ''Bonjour'')]) \<and>
      wf_val (Object [(''Body'', String ''Monde''), (''Title'', String ''Salut'')])"
    by simp
  have shape2: "distinct (map fst [(''Title'', String ''Bonjour'')]) \<and>
      wf_val (Object [(''Title'', String ''Hello'')])"
    by simp
  have run: "getTranslations example_config example_provider
        (Object (diffObjects [] [(''Title'', String ''Hello'')])) ''fr''
      = ([(''Hello'', ''fr'')],
         Inr (Some \<lparr>results = [(''Title'', String ''Bonjour'')], translated = True\<rparr>))"
    by (simp add: diffObjects.simps lookup_def assign_def prototype_members_def
          translateLeaf_def spread_def example_config_def example_provider_def)
  from merge_keeps_original [of "[(''Title'', String ''Bonjour'')]"
      "[(''Body'', String ''Monde''), (''Title'', String ''Salut'')]"] shape
  have first: "get_prop (spread [(''Title'', String ''Bonjour'')]
               [(''Body'', String ''Monde''), (''Title'', String ''Salut'')]) ''Title''
     = String ''Salut'' \<and>
   isEqual (Object (spread [(''Title'', String ''Bonjour'')]
                      [(''Body'', String ''Monde''), (''Title'', String ''Salut'')]))
           (Object [(''Body'', String ''Monde''), (''Title'', String ''Salut'')])"
    by simp
  from merge_keeps_original [of "[(''Title'', String ''Bonjour'')]"
      "[(''Title'', String ''Hello'')]"] shape2
  have "\<forall>cfg translate base snapshot t w cs updates.
            require snapshot (path t) = Inr [(''Title'', String ''Hello'')] \<and>
            getTranslations cfg translate (Object (diffObjects base [(''Title'', String ''Hello'')])) (lang t)
              = (cs, Inr (Some updates)) \<and>
            path t \<notin> unwritable w \<longrightarrow>
            files (snd (translateOne cfg translate base snapshot t w)) (path t)
              = Some (spread (results updates) [(''Title'', String ''Hello'')])"
    by blast
  from this [rule_format, of
      "example_world [(''/i18n/en.json'', []),
                      (''/i18n/fr.json'', [(''Title'', String ''Hello'')])] []"
      "\<lparr>lang = ''fr'', path = ''/i18n/fr.json''\<rparr>" example_config example_provider "[]"
      "[(''Hello'', ''fr'')]"
      "\<lparr>results = [(''Title'', String ''Bonjour'')], translated = True\<rparr>"
      "example_world [(''/i18n/en.json'', []),
                      (''/i18n/fr.json'', [(''Title'', String ''Hello'')])] []"] run
  have second: "files (snd (translateOne example_config example_provider []
                 (example_world [(''/i18n/en.json'', []),
                                 (''/i18n/fr.json'', [(''Title'', String ''Hello'')])] [])
                 \<lparr>lang = ''fr'', path = ''/i18n/fr.json''\<rparr>
                 (example_world [(''/i18n/en.json'', []),
                                 (''/i18n/fr.json'', [(''Title'', String ''Hello'')])] [])))
         ''/i18n/fr.json''
     = Some [(''Title'', String ''Hello'')]"
    by (simp add: require_def example_world_def spread_def)
  show ?thesis using first second by simp
qed

text \<open>The keys of a gap tree are keys of the target, and the results of a walk hold a key
  of the node walked. So whenever a translation is written, the original already has every
  key of the translated leaves: the content written is deep-equal to the content read.\<close>

lemma written_content_equals_original:
  assumes "wf_val (Object original)"
    and "require snapshot (path t) = Inr original"
    and "translateOne cfg translate base snapshot t w = (None, w')"
  shows "\<exists>content. files w' (path t) = Some content \<and>
           isEqual (Object content) (Object original)"
proof -
  obtain cs res where g: "getTranslations cfg translate (Object (diffObjects base original)) (lang t)
      = (cs, res)"
    by (cases "getTranslations cfg translate (Object (diffObjects base original)) (lang t)")
  from assms(2,3) g obtain updates where res: "res = Inr (Some updates)"
    and w': "w' = w\<lparr>calls := calls w @ cs,
              files := (files w)(path t \<mapsto> spread (results updates) original)\<rparr>"
    by (auto simp: translateOne_def writeFile_def split: sum.splits option.splits if_splits)
  have "\<forall>k. has_prop (results updates) k \<longrightarrow> has_prop original k"
    using getTranslations_results_keys [OF g [unfolded res]] diffObjects_keys by blast
  from spread_covered_isEqual [OF assms(1) this] show ?thesis using w' by simp
qed

text \<open>
  C10. \<^verbatim>\<open>getTranslations\<close> returns \<^verbatim>\<open>null\<close> on the empty object, which is the gap tree of a
  target that deep-equals the base. The driver does not write the original content back
  then: reading \<^verbatim>\<open>updates.results\<close> of the \<^verbatim>\<open>null\<close> throws a \<^verbatim>\<open>TypeError\<close>, the translation
  of that file is rejected and \<^verbatim>\<open>writeFile\<close> is never called.
\<close>

theorem empty_gap_throws:
  "getTranslations cfg translate (Object []) lng = ([], Inr None) \<and>
   (require snapshot (path t) = Inr original \<longrightarrow> isEqual (Object original) (Object base) \<longrightarrow>
      diffObjects base original = [] \<and>
      translateOne cfg translate base snapshot t w = (Some TypeError, w))"
  by (simp add: diffObjects_equal translateOne_def)

theorem empty_gap_throws_witness:
  "translateOne example_config example_provider [(''Title'', String ''Hello'')]
     (example_world [(''/i18n/en.json'', [(''Title'', String ''Hello'')]),
                     (''/i18n/fr.json'', [(''Title'', String ''Hello'')])] [])
     \<lparr>lang = ''fr'', path = ''/i18n/fr.json''\<rparr>
     (example_world [(''/i18n/en.json'', [(''Title'', String ''Hello'')]),
                     (''/i18n/fr.json'', [(''Title'', String ''Hello'')])] [])
   = (Some TypeError,
      example_world [(''/i18n/en.json'', [(''Title'', String ''Hello'')]),
                     (''/i18n/fr.json'', [(''Title'', String ''Hello'')])] [])"
  using empty_gap_throws [of example_config example_provider "''fr''"
      "example_world [(''/i18n/en.json'', [(''Title'', String ''Hello'')]),
                      (''/i18n/fr.json'', [(''Title'', String ''Hello'')])] []"
      "\<lparr>lang = ''fr'', path = ''/i18n/fr.json''\<rparr>" "[(''Title'', String ''Hello'')]"
      "[(''Title'', String ''Hello'')]"
      "example_world [(''/i18n/en.json'', [(''Title'', String ''Hello'')]),
                      (''/i18n/fr.json'', [(''Title'', String ''Hello'')])] []"]
  by (simp add: require_def example_world_def)

text \<open>
  C1. For the base \<^verbatim>\<open>{"Title": "Hello"}\<close> and the target \<^verbatim>\<open>{}\<close> the scenario expects the
  gap tree \<^verbatim>\<open>{"Title": "Hello"}\<close>, a call of the provider with \<^verbatim>\<open>("Hello", "fr")\<close> and the
  written content \<^verbatim>\<open>{"Title": "Bonjour"}\<close>. \<^verbatim>\<open>diffObjects\<close> walks the keys of the target,
  which has none: the gap tree is empty for every base, \<^verbatim>\<open>getTranslations\<close> returns
  \<^verbatim>\<open>null\<close> without calling the provider, and the driver logs a \<^verbatim>\<open>TypeError\<close> and leaves
  the target file \<^verbatim>\<open>{}\<close>, whatever the configuration and the provider.
\<close>

theorem title_scenario_finds_no_gap:
  "diffObjects [(''Title'', String ''Hello'')] [] = [] \<and>
   getTranslations cfg translate (Object (diffObjects [(''Title'', String ''Hello'')] [])) ''fr''
     = ([], Inr None) \<and>
   acquireMissingTranslations cfg translate \<lparr>lang = ''en'', path = ''/i18n/en.json''\<rparr>
       [''fr''] False
       (example_world [(''/i18n/en.json'', [(''Title'', String ''Hello'')]), (''/i18n/fr.json'', [])] [])
       (example_world [(''/i18n/en.json'', [(''Title'', String ''Hello'')]), (''/i18n/fr.json'', [])] [])
     = (example_world [(''/i18n/en.json'', [(''Title'', String ''Hello'')]), (''/i18n/fr.json'', [])] [])
         \<lparr>errlog := [TypeError]\<rparr>"
  by (simp add: diffObjects_empty_target acquireMissingTranslations_def promiseAll_def
        translateOne_def
        require_def example_world_def targetPath_def dirname_def)

section \<open>Resolving references and creating targets\<close>

text \<open>
  C5. In directory mode every file descriptor is to carry the name of its subdirectory
  as language. \<^verbatim>\<open>getDirectoryFiles\<close> takes \<^verbatim>\<open>path.dirname\<close> of the directory entry instead
  of its base name: with the subfolders \<^verbatim>\<open>en\<close>, \<^verbatim>\<open>fr\<close>, \<^verbatim>\<open>de\<close>, each holding \<^verbatim>\<open>common.json\<close>,
  the language of all three descriptors is \<^verbatim>\<open>.\<close> when the listing gives names (as
  \<^verbatim>\<open>fs.readdir\<close> does) and the parent directory \<^verbatim>\<open>/i18n\<close> when it gives full paths. The
  reference language is \<^verbatim>\<open>en\<close>, so no descriptor is a base file.
\<close>

theorem directory_language_is_parent:
  "getDirectoryFiles
     (example_world []
        [(''/i18n'', [''en'', ''fr'', ''de'']), (''en'', [''common.json'']),
         (''fr'', [''common.json'']), (''de'', [''common.json''])])
     \<lparr>ref_path = ''/i18n/en'', inject = None\<rparr>
   = Inr ([\<lparr>lang = ''.'', path = ''common.json''\<rparr>, \<lparr>lang = ''.'', path = ''common.json''\<rparr>,
           \<lparr>lang = ''.'', path = ''common.json''\<rparr>], ''en'') \<and>
   getDirectoryFiles
     (example_world []
        [(''/i18n'', [''/i18n/en'', ''/i18n/fr'', ''/i18n/de'']),
         (''/i18n/en'', [''/i18n/en/common.json'']),
         (''/i18n/fr'', [''/i18n/fr/common.json'']),
         (''/i18n/de'', [''/i18n/de/common.json''])])
     \<lparr>ref_path = ''/i18n/en'', inject = None\<rparr>
   = Inr ([\<lparr>lang = ''/i18n'', path = ''/i18n/en/common.json''\<rparr>,
           \<lparr>lang = ''/i18n'', path = ''/i18n/fr/common.json''\<rparr>,
           \<lparr>lang = ''/i18n'', path = ''/i18n/de/common.json''\<rparr>], ''en'')"
  by (simp add: getDirectoryFiles_def dirFiles_def example_world_def dirname_def basename_def)

text \<open>
  C9. The effective languages are the configured ones, or else those found on disk, and
  a target file and folder are to exist for each of them before translation starts.
  \<^verbatim>\<open>createEmptyFolders\<close> and \<^verbatim>\<open>createEmptyFiles\<close> read \<^verbatim>\<open>this.config.languages\<close> rather than
  the effective languages: with no languages configured both throw a \<^verbatim>\<open>TypeError\<close>, and
  a run over \<^verbatim>\<open>en.json\<close> and \<^verbatim>\<open>fr.json\<close>, whose effective languages are \<^verbatim>\<open>en\<close> and \<^verbatim>\<open>fr\<close>,
  is rejected with nothing created and nothing translated.
\<close>

theorem absent_languages_abort_run:
  "effectiveLanguages (cfg\<lparr>languages := None\<rparr>)
       [\<lparr>lang = ''en'', path = ''en.json''\<rparr>, \<lparr>lang = ''fr'', path = ''fr.json''\<rparr>]
     = [''en'', ''fr''] \<and>
   createEmptyFolders (cfg\<lparr>languages := None\<rparr>) ref w = (Some TypeError, w) \<and>
   createEmptyFiles (cfg\<lparr>languages := None\<rparr>) ref baseFile isDir snapshot w = (Some TypeError, w) \<and>
   runReference (cfg\<lparr>languages := None\<rparr>) translate \<lparr>ref_path = ''/i18n/en.json'', inject = None\<rparr>
       (example_world [(''/i18n/en.json'', [(''Title'', String ''Hello'')])]
          [(''/i18n'', [''en.json'', ''fr.json''])])
     = (Some TypeError,
        example_world [(''/i18n/en.json'', [(''Title'', String ''Hello'')])]
          [(''/i18n'', [''en.json'', ''fr.json''])])"
  by (simp add: effectiveLanguages_def uniq_def createEmptyFolders_def createEmptyFiles_def
        promiseAll_def
        runReference_def getJSONFiles_def dirFiles_def existsSync_def isDirectory_def
        example_world_def dirname_def basename_def)

end
